theory Spec2Isabelle
  imports Main "HOL-Library.Sublist"
begin

section \<open>UniGit: the recursive update engine, its summary generator and its ledger\<close>

text \<open>
  A shallow embedding of \<^verbatim>\<open>src/UniGit.py\<close>: the methods \<^verbatim>\<open>summarize_with_ollama\<close>,
  \<^verbatim>\<open>git_pull\<close>, \<^verbatim>\<open>git_pull_recursive\<close>, \<^verbatim>\<open>find_git_repositories\<close> and
  \<^verbatim>\<open>save_summaries\<close> of class \<^verbatim>\<open>UniGit\<close>.

  Python strings are modelled as HOL strings (lists of characters), read as ASCII text.
  Every call of \<^verbatim>\<open>subprocess\<close> is modelled by its outcome, which is an input of the
  model: the text written to standard output, or the exception raised. Logging and
  printing are left out; what \<^verbatim>\<open>git_pull\<close> reports is kept as a value of type
  \<open>outcome\<close>.
\<close>

subsection \<open>Strings\<close>

text \<open>The characters \<^verbatim>\<open>str.isspace\<close> accepts among the ASCII characters.\<close>

definition isspace :: "char \<Rightarrow> bool" where
  "isspace c = (of_char c \<in> {9, 10, 11, 12, 13, 28, 29, 30, 31, 32 :: nat})"

text \<open>\<^verbatim>\<open>str.strip()\<close>: leading and trailing whitespace removed.\<close>

definition strip :: "string \<Rightarrow> string" where
  "strip s = rev (dropWhile isspace (rev (dropWhile isspace s)))"

text \<open>\<^verbatim>\<open>str.lower()\<close> on ASCII text.\<close>

definition lower_char :: "char \<Rightarrow> char" where
  "lower_char c =
     (if 65 \<le> (of_char c :: nat) \<and> (of_char c :: nat) \<le> 90
      then char_of (of_char c + 32 :: nat) else c)"

definition lower :: "string \<Rightarrow> string" where
  "lower s = map lower_char s"

text \<open>\<^verbatim>\<open>sub in s\<close> on strings: \<open>sub\<close> occurs in \<open>s\<close> as a contiguous block.\<close>

fun contains :: "string \<Rightarrow> string \<Rightarrow> bool" where
  "contains [] sub = (sub = [])"
| "contains (c # s) sub = (prefix sub (c # s) \<or> contains s sub)"

subsection \<open>Outcomes of a subprocess call\<close>

text \<open>
  What \<^verbatim>\<open>subprocess.run\<close>, \<^verbatim>\<open>check_call\<close> and \<^verbatim>\<open>check_output\<close> (all with
  \<^verbatim>\<open>check=True\<close> semantics) can do: return with the captured standard output, or
  raise. \<open>CalledProcessError\<close> carries \<^verbatim>\<open>str(e)\<close>; \<open>OtherException\<close> stands for
  every other subclass of \<^verbatim>\<open>Exception\<close>.
\<close>

datatype proc_outcome =
    Completed string
  | TimeoutExpired
  | CalledProcessError string
  | FileNotFoundError
  | OtherException

subsection \<open>The state of a UniGit object\<close>

record summary_entry =
  directory :: string
  branch :: string
  summary :: string
  success :: bool

record unigit =
  enable_summary :: bool
  dry_run :: bool
  max_retries :: int
  summaries :: "summary_entry list"
  current_date :: string
  summary_failures :: nat

subsection \<open>summarize_with_ollama\<close>

text \<open>
  The behaviour of the generation service during one call: for each attempt, the outcome
  of the probe \<^verbatim>\<open>ollama list\<close> and the outcome of \<^verbatim>\<open>ollama run\<close> (which is only
  started when the probe returned).
\<close>

type_synonym ollama = "nat \<Rightarrow> proc_outcome \<times> proc_outcome"

text \<open>The body of the \<^verbatim>\<open>try\<close> up to \<^verbatim>\<open>result.stdout\<close>: the first exception wins.\<close>

definition try_ollama :: "proc_outcome \<times> proc_outcome \<Rightarrow> proc_outcome" where
  "try_ollama pg = (case fst pg of Completed _ \<Rightarrow> snd pg | e \<Rightarrow> e)"

text \<open>\<^verbatim>\<open>range(n)\<close> as the list it iterates over.\<close>

definition py_range :: "int \<Rightarrow> int list" where
  "py_range n = map int [0..<nat n]"

text \<open>
  The \<^verbatim>\<open>for attempt in range(self.max_retries + 1)\<close> loop over the attempts still to
  come. The result is the returned value (\<open>None\<close> when the loop ends without a
  \<^verbatim>\<open>return\<close>, which is Python's \<^verbatim>\<open>None\<close>), the number of attempts that were
  started, and the object with its updated \<^verbatim>\<open>summary_failures\<close>.
\<close>

fun attempts_loop :: "unigit \<Rightarrow> ollama \<Rightarrow> int list \<Rightarrow> string option \<times> nat \<times> unigit" where
  "attempts_loop self svc [] = (None, 0, self)"
| "attempts_loop self svc (attempt # rest) =
     (let continue = (case attempts_loop self svc rest of (r, n, self') \<Rightarrow> (r, Suc n, self')) in
      case try_ollama (svc (nat attempt)) of
        Completed out \<Rightarrow>
          (let summary = strip out in
           if summary = [] \<or> length summary < 10 then
             (if attempt < max_retries self then continue
              else (Some ''Summary generation produced insufficient results.'', 1, self))
           else if length summary > 1000 then (Some (take 997 summary @ ''...''), 1, self)
           else (Some summary, 1, self))
      | TimeoutExpired \<Rightarrow>
          (if attempt < max_retries self then continue
           else (Some ''Error: Summary generation timed out.'', 1,
                 self\<lparr>summary_failures := summary_failures self + 1\<rparr>))
      | CalledProcessError e \<Rightarrow>
          (if attempt < max_retries self then continue
           else (Some ''Error generating summary: Ollama command failed.'', 1,
                 self\<lparr>summary_failures := summary_failures self + 1\<rparr>))
      | FileNotFoundError \<Rightarrow>
          (Some ''Error: Ollama not installed.'', 1,
           self\<lparr>summary_failures := summary_failures self + 1\<rparr>)
      | OtherException \<Rightarrow>
          (if attempt < max_retries self then continue
           else (Some ''Error generating summary due to an unexpected issue.'', 1,
                 self\<lparr>summary_failures := summary_failures self + 1\<rparr>)))"

definition summarize_with_ollama ::
  "unigit \<Rightarrow> ollama \<Rightarrow> string \<Rightarrow> string option \<times> nat \<times> unigit" where
  "summarize_with_ollama self svc commit_messages =
     (if strip commit_messages = [] then (Some ''No commit messages to summarize.'', 0, self)
      else attempts_loop self svc (py_range (max_retries self + 1)))"

subsection \<open>Paths and directory trees\<close>

text \<open>
  A \<^verbatim>\<open>Path\<close> is the list of its components. A directory tree gives, for a directory,
  the entries \<^verbatim>\<open>os.listdir\<close> returns in the order it returns them, each with what the
  entry is. All directories are readable; symbolic links are not modelled.
\<close>

type_synonym path = "string list"

fun str_path :: "path \<Rightarrow> string" where
  "str_path [] = ''.''"
| "str_path [c] = c"
| "str_path (c # cs) = c @ ''/'' @ str_path cs"

datatype fsnode = File | Dir "(string \<times> fsnode) list"

type_synonym listing = "(string \<times> fsnode) list"

text \<open>\<^verbatim>\<open>(item_path / ".git").is_dir()\<close>, on the listing of \<^verbatim>\<open>item_path\<close>.\<close>

definition has_git_dir :: "listing \<Rightarrow> bool" where
  "has_git_dir es = (case map_of es ''.git'' of Some (Dir _) \<Rightarrow> True | _ \<Rightarrow> False)"

subsection \<open>find_git_repositories\<close>







subsection \<open>git_pull\<close>

text \<open>
  What the external commands do for one repository during one call of \<^verbatim>\<open>git_pull\<close>,
  in the order the method runs them: \<^verbatim>\<open>git rev-parse HEAD\<close>,
  \<^verbatim>\<open>git rev-parse --abbrev-ref HEAD\<close>, in a dry run \<^verbatim>\<open>git fetch\<close> and
  \<^verbatim>\<open>git log old..origin/branch --oneline\<close>, otherwise \<^verbatim>\<open>git pull\<close> (with or without
  \<^verbatim>\<open>--recurse-submodules\<close>), \<^verbatim>\<open>git rev-parse HEAD\<close> again,
  \<^verbatim>\<open>git log old..new --oneline\<close>, and the generation service.

  \<^verbatim>\<open>git pull\<close> is run by \<^verbatim>\<open>subprocess.check_call\<close> without capturing its output:
  the process exits with a status, having written a text to its standard error that
  stays on the terminal and never reaches the program; or it is killed by a signal, given
  here by the text Python shows for that signal; or the call raises another exception.
\<close>

datatype call_outcome =
    Exited nat string
  | Killed string
  | CallRaised

record git_env =
  rev_parse_head :: proc_outcome
  rev_parse_branch :: proc_outcome
  fetch :: proc_outcome
  log_remote :: proc_outcome
  pull :: "bool \<Rightarrow> call_outcome"
  rev_parse_head_after :: proc_outcome
  log_range :: proc_outcome
  ollama_service :: ollama

text \<open>What a call of \<^verbatim>\<open>git_pull\<close> reports, one value for each way through the method.\<close>

datatype outcome =
    DryRunWouldPull
  | DryRunNothing
  | Forbidden
  | PullError
  | NoChange
  | Updated
  | SummariesDisabled
  | Summarized
  | GitError
  | UnexpectedError

text \<open>
  The command \<^verbatim>\<open>cmd\<close> of the pull, and \<^verbatim>\<open>str(e)\<close> for the
  \<^verbatim>\<open>CalledProcessError\<close> that \<^verbatim>\<open>check_call\<close> raises for it:
  \<^verbatim>\<open>"Command '%s' returned non-zero exit status %d." % (cmd, returncode)\<close>, or
  \<^verbatim>\<open>"Command '%s' died with %r." % (cmd, signal)\<close>, with the list \<^verbatim>\<open>cmd\<close> shown
  as Python shows a list of strings.
\<close>

definition pull_cmd :: "bool \<Rightarrow> string list" where
  "pull_cmd pull_submodules =
     [''git'', ''pull''] @ (if pull_submodules then [''--recurse-submodules''] else [])"

fun str_nat :: "nat \<Rightarrow> string" where
  "str_nat n =
     (if n < 10 then [''0123456789'' ! n]
      else str_nat (n div 10) @ [''0123456789'' ! (n mod 10)])"

declare str_nat.simps [simp del]

fun join_comma :: "string list \<Rightarrow> string" where
  "join_comma [] = []"
| "join_comma [x] = x"
| "join_comma (x # xs) = x @ '', '' @ join_comma xs"

definition str_list :: "string list \<Rightarrow> string" where
  "str_list xs = ''['' @ join_comma (map (\<lambda>x. [CHR 0x27] @ x @ [CHR 0x27]) xs) @ '']''"

definition exit_status_str :: "string list \<Rightarrow> nat \<Rightarrow> string" where
  "exit_status_str cmd returncode =
     ''Command '' @ [CHR 0x27] @ str_list cmd @ [CHR 0x27] @
     '' returned non-zero exit status '' @ str_nat returncode @ ''.''"

definition died_with_str :: "string list \<Rightarrow> string \<Rightarrow> string" where
  "died_with_str cmd signal =
     ''Command '' @ [CHR 0x27] @ str_list cmd @ [CHR 0x27] @ '' died with '' @ signal @ ''.''"

text \<open>The test on \<^verbatim>\<open>str(e)\<close> in the handler around \<^verbatim>\<open>git pull\<close>.\<close>

definition is_forbidden :: "string \<Rightarrow> bool" where
  "is_forbidden error_output =
     (contains error_output ''403'' \<or> contains (lower error_output) ''forbidden''
      \<or> contains error_output ''Permission denied'')"

text \<open>
  The two outer handlers of \<^verbatim>\<open>git_pull\<close>: \<^verbatim>\<open>except subprocess.CalledProcessError\<close>
  and \<^verbatim>\<open>except Exception\<close>.
\<close>

definition check_output ::
  "proc_outcome \<Rightarrow> unigit \<Rightarrow> (string \<Rightarrow> unigit \<times> outcome) \<Rightarrow> unigit \<times> outcome" where
  "check_output r self k =
     (case r of
        Completed out \<Rightarrow> k out
      | CalledProcessError e \<Rightarrow> (self, GitError)
      | _ \<Rightarrow> (self, UnexpectedError))"

definition git_pull :: "unigit \<Rightarrow> git_env \<Rightarrow> path \<Rightarrow> bool \<Rightarrow> unigit \<times> outcome" where
  "git_pull self env dir pull_submodules =
     check_output (rev_parse_head env) self (\<lambda>out1.
     let old_head = strip out1 in
     check_output (rev_parse_branch env) self (\<lambda>out2.
     let br = strip out2 in
     if dry_run self then
       check_output (fetch env) self (\<lambda>_.
       check_output (log_remote env) self (\<lambda>out3.
       let new_commits = strip out3 in
       (self, if new_commits \<noteq> [] then DryRunWouldPull else DryRunNothing)))
     else
       (case pull env pull_submodules of
          CallRaised \<Rightarrow> (self, UnexpectedError)
        | Killed signal \<Rightarrow>
            (let error_output = died_with_str (pull_cmd pull_submodules) signal in
             (self, if is_forbidden error_output then Forbidden else PullError))
        | Exited returncode stderr \<Rightarrow>
            if returncode \<noteq> 0 then
              (let error_output = exit_status_str (pull_cmd pull_submodules) returncode in
               (self, if is_forbidden error_output then Forbidden else PullError))
            else
            check_output (rev_parse_head_after env) self (\<lambda>out4.
            let new_head = strip out4 in
            if old_head = new_head then (self, NoChange)
            else
              check_output (log_range env) self (\<lambda>out5.
              let new_commits = strip out5 in
              if new_commits \<noteq> [] \<and> enable_summary self then
                (if summary_failures self > 3 then
                   (if enable_summary self
                    then (self\<lparr>enable_summary := False\<rparr>, SummariesDisabled)
                    else (self, SummariesDisabled))
                 else
                   (case summarize_with_ollama self (ollama_service env) new_commits of
                      (Some text, n, self') \<Rightarrow>
                        (self'\<lparr>summaries := summaries self' @
                           [\<lparr>directory = str_path dir, branch = br, summary = text,
                             success = (\<not> prefix ''Error'' text)\<rparr>]\<rparr>, Summarized)
                    | (None, n, self') \<Rightarrow> (self', UnexpectedError)))
              else (self, Updated))))))"

subsection \<open>git_pull_recursive\<close>

text \<open>
  The sweep over the listing of \<open>dir\<close>. \<open>world\<close> gives the behaviour of the external
  commands in each repository. The result is the object after the sweep and, for each
  call of \<^verbatim>\<open>git_pull\<close> in order, the path it was called on and what it reported.
\<close>

fun git_pull_recursive ::
  "(path \<Rightarrow> git_env) \<Rightarrow> bool \<Rightarrow> path \<Rightarrow> listing \<Rightarrow> unigit \<Rightarrow> unigit \<times> (path \<times> outcome) list" where
  "git_pull_recursive world pull_submodules dir [] self = (self, [])"
| "git_pull_recursive world pull_submodules dir ((item, node) # rest) self =
     (if prefix ''.'' item \<and> item \<noteq> ''.git'' then
        git_pull_recursive world pull_submodules dir rest self
      else case node of
        File \<Rightarrow> git_pull_recursive world pull_submodules dir rest self
      | Dir sub \<Rightarrow>
          (let item_path = dir @ [item] in
           if has_git_dir sub then
             (case git_pull self (world item_path) item_path pull_submodules of
                (self1, reported) \<Rightarrow>
                  (case git_pull_recursive world pull_submodules dir rest self1 of
                     (self2, calls) \<Rightarrow> (self2, (item_path, reported) # calls)))
           else
             (case git_pull_recursive world pull_submodules item_path sub self of
                (self1, calls1) \<Rightarrow>
                  (case git_pull_recursive world pull_submodules dir rest self1 of
                     (self2, calls2) \<Rightarrow> (self2, calls1 @ calls2)))))"

subsection \<open>save_summaries\<close>

text \<open>
  The summary file is the text it holds on disk, or \<open>None\<close> when it does not exist; the
  result is the file after the call. Both \<^verbatim>\<open>open\<close> calls are in text mode: reading
  turns every \<^verbatim>\<open>\r\n\<close> and every remaining \<^verbatim>\<open>\r\<close> into \<^verbatim>\<open>\n\<close>, and writing
  turns every \<^verbatim>\<open>\n\<close> into the line separator of the platform. Reading an existing
  file may raise (it cannot be opened, or is not valid UTF-8) and so may opening the
  file for writing; the \<^verbatim>\<open>except Exception\<close> around both reports the error and the
  file stays as it was. Once the file is open for writing, the writes succeed.
\<close>

record file_io =
  linesep :: string
  read_raises :: bool
  write_raises :: bool

fun universal_newlines :: "string \<Rightarrow> string" where
  "universal_newlines [] = []"
| "universal_newlines [c] = (if c = CHR 0x0D then [CHR 0x0A] else [c])"
| "universal_newlines (c # c' # s) =
     (if c = CHR 0x0D then
        (if c' = CHR 0x0A then CHR 0x0A # universal_newlines s
         else CHR 0x0A # universal_newlines (c' # s))
      else c # universal_newlines (c' # s))"

definition write_text :: "string \<Rightarrow> string \<Rightarrow> string" where
  "write_text sep s = concat (map (\<lambda>c. if c = CHR 0x0A then sep else [c]) s)"

definition entry_block :: "summary_entry \<Rightarrow> string" where
  "entry_block entry =
     ''Directory: '' @ directory entry @ [CHR 0x0A] @
     ''Branch: '' @ branch entry @ [CHR 0x0A] @
     summary entry @ [CHR 0x0A, CHR 0x0A]"

definition save_summaries :: "unigit \<Rightarrow> file_io \<Rightarrow> string option \<Rightarrow> string option" where
  "save_summaries self io summary_file =
     (if summaries self = [] \<or> \<not> enable_summary self \<or> dry_run self then summary_file
      else
        (let valid_summaries = filter success (summaries self) in
         if valid_summaries = [] then summary_file
         else if summary_file \<noteq> None \<and> read_raises io then summary_file
         else
           (let existing_content =
                  (case summary_file of None \<Rightarrow> [] | Some c \<Rightarrow> universal_newlines c) in
            if write_raises io then summary_file
            else
              Some (write_text (linesep io)
                     (''Date: '' @ current_date self @ [CHR 0x0A, CHR 0x0A] @
                      concat (map entry_block valid_summaries) @
                      (if existing_content \<noteq> []
                       then replicate 50 CHR ''-'' @ [CHR 0x0A, CHR 0x0A] @ existing_content
                       else []))))))"

subsection \<open>The ledger law of the specification\<close>

text \<open>
  The specification's prepend law, in its own words: with existing content \<open>C\<close> and the
  successful records \<open>R\<close>, the file after persisting is \<open>header(R) ++ separator ++ C\<close>
  when \<open>C\<close> is not empty and \<open>header(R)\<close> alone when it is. The header holds the run
  timestamp and one block per record; a file that does not exist has empty content.
\<close>

definition file_content :: "string option \<Rightarrow> string" where
  "file_content summary_file = (case summary_file of None \<Rightarrow> [] | Some c \<Rightarrow> c)"

definition ledger_header :: "string \<Rightarrow> summary_entry list \<Rightarrow> string" where
  "ledger_header date R =
     ''Date: '' @ date @ [CHR 0x0A, CHR 0x0A] @ concat (map entry_block R)"

definition ledger_separator :: string where
  "ledger_separator = replicate 50 CHR ''-'' @ [CHR 0x0A, CHR 0x0A]"

definition prepend_law :: "string \<Rightarrow> summary_entry list \<Rightarrow> string \<Rightarrow> string" where
  "prepend_law date R C =
     (if C \<noteq> [] then ledger_header date R @ ledger_separator @ C else ledger_header date R)"

subsection \<open>Inputs for the examples\<close>

text \<open>
  \<^verbatim>\<open>__init__\<close>, from the configuration values and the time of the call; a generation
  service that behaves the same at every attempt, or one way at the first attempt and
  another way afterwards; a repository whose pull moves \<^verbatim>\<open>HEAD\<close> over two new commits;
  a world in which every repository behaves alike.
\<close>

definition always :: "proc_outcome \<times> proc_outcome \<Rightarrow> ollama" where
  "always pg = (\<lambda>attempt. pg)"

definition first_then :: "proc_outcome \<times> proc_outcome \<Rightarrow> proc_outcome \<times> proc_outcome \<Rightarrow> ollama" where
  "first_then pg pg' = (\<lambda>attempt. if attempt = 0 then pg else pg')"

definition everywhere :: "git_env \<Rightarrow> path \<Rightarrow> git_env" where
  "everywhere env = (\<lambda>dir. env)"

definition init :: "bool \<Rightarrow> bool \<Rightarrow> int \<Rightarrow> string \<Rightarrow> unigit" where
  "init enable dry retries now =
     \<lparr>enable_summary = enable, dry_run = dry, max_retries = retries, summaries = [],
      current_date = now, summary_failures = 0\<rparr>"

definition updated_repo :: "ollama \<Rightarrow> git_env" where
  "updated_repo svc =
     \<lparr>rev_parse_head = Completed (''aaa1111'' @ [CHR 0x0A]),
      rev_parse_branch = Completed (''main'' @ [CHR 0x0A]),
      fetch = Completed [],
      log_remote = Completed [],
      pull = (\<lambda>pull_submodules. Exited 0 []),
      rev_parse_head_after = Completed (''ccc3333'' @ [CHR 0x0A]),
      log_range = Completed (''ccc3333 Add parser'' @ [CHR 0x0A] @
                             ''bbb2222 Fix typo'' @ [CHR 0x0A]),
      ollama_service = svc\<rparr>"

text \<open>
  The repository is updated by the pull and the log of the new commits is not empty:
  every command up to \<^verbatim>\<open>git log\<close> returns, the two revisions differ, and the
  log text is not blank.
\<close>

definition updated_with_commits :: "git_env \<Rightarrow> bool \<Rightarrow> bool" where
  "updated_with_commits env pull_submodules =
     ((case pull env pull_submodules of Exited returncode stderr \<Rightarrow> returncode = 0 | _ \<Rightarrow> False)
      \<and> (case (rev_parse_head env, rev_parse_branch env,
                rev_parse_head_after env, log_range env) of
            (Completed out1, Completed out2, Completed out4, Completed out5) \<Rightarrow>
              strip out1 \<noteq> strip out4 \<and> strip out5 \<noteq> []
          | _ \<Rightarrow> False))"

text \<open>
  A repository in which \<^verbatim>\<open>git pull\<close> exits with the given status after writing the
  given text to its standard error.
\<close>

definition pull_refused :: "nat \<Rightarrow> string \<Rightarrow> git_env" where
  "pull_refused returncode stderr =
     (updated_repo (always (Completed [], Completed [])))
       \<lparr>pull := (\<lambda>pull_submodules. Exited returncode stderr)\<rparr>"

text \<open>A platform whose line separator is \<^verbatim>\<open>\n\<close>, with a file that can be read and written.\<close>

definition posix_io :: file_io where
  "posix_io = \<lparr>linesep = [CHR 0x0A], read_raises = False, write_raises = False\<rparr>"

subsection \<open>Notions for stating the traversal properties\<close>





subsection \<open>The log of the new commits\<close>

text \<open>
  The command that \<^verbatim>\<open>git_pull\<close> runs for the new commits:
  \<^verbatim>\<open>["git", "log", f"{old_head}..{new_head}", "--oneline"]\<close>.
\<close>

definition git_log_argv :: "string \<Rightarrow> string \<Rightarrow> string list" where
  "git_log_argv old_head new_head =
     [''git'', ''log'', old_head @ ''..'' @ new_head, ''--oneline'']"

text \<open>
  Modelled from the spec: the external version-control executable, which is not part of
  the repository. For the one-line summaries of the commits of the range, given
  oldest first, the specification says what \<^verbatim>\<open>git log\<close> writes: the summaries
  ``newest-first, as \<^verbatim>\<open>git log\<close> emits, unless explicitly reversed'', one per line.
\<close>

definition git_log_stdout :: "string list \<Rightarrow> string list \<Rightarrow> string" where
  "git_log_stdout argv range_summaries =
     concat (map (\<lambda>line. line @ [CHR 0x0A])
       (if ''--reverse'' \<in> set argv then range_summaries else rev range_summaries))"

text \<open>
  \<^verbatim>\<open>new_commits\<close> of \<^verbatim>\<open>git_pull\<close>: the output of that command, stripped. In
  \<open>git_pull\<close> it is \<open>strip out5\<close> for the outcome \<open>Completed out5\<close> of the log command.
\<close>

definition commits_between :: "string list \<Rightarrow> string \<Rightarrow> string \<Rightarrow> string" where
  "commits_between range_summaries old_head new_head =
     strip (git_log_stdout (git_log_argv old_head new_head) range_summaries)"

text \<open>\<^verbatim>\<open>"\n".join(lines)\<close>.\<close>

fun join_lines :: "string list \<Rightarrow> string" where
  "join_lines [] = []"
| "join_lines [line] = line"
| "join_lines (line # rest) = line @ [CHR 0x0A] @ join_lines rest"

section \<open>Properties\<close>

subsection \<open>The ledger\<close>

lemma universal_newlines_id: "CHR 0x0D \<notin> set s \<Longrightarrow> universal_newlines s = s"
  by (induction s rule: universal_newlines.induct) auto

lemma universal_newlines_empty: "universal_newlines s = [] \<longleftrightarrow> s = []"
  by (induction s rule: universal_newlines.induct) auto

lemma write_text_id: "write_text [CHR 0x0A] s = s"
  by (induction s) (auto simp: write_text_def)

lemma save_summaries_writes:
  assumes "enable_summary self" and "\<not> dry_run self"
    and "\<exists>e \<in> set (summaries self). success e"
    and "summary_file = None \<or> \<not> read_raises io" and "\<not> write_raises io"
  shows "save_summaries self io summary_file =
         Some (write_text (linesep io)
                (prepend_law (current_date self) (filter success (summaries self))
                   (universal_newlines (file_content summary_file))))"
proof -
  from assms(3) have ne: "summaries self \<noteq> []" "filter success (summaries self) \<noteq> []"
    by (auto simp: filter_empty_conv)
  show ?thesis
  proof (cases summary_file)
    case None
    with assms ne show ?thesis
      by (simp add: save_summaries_def prepend_law_def ledger_header_def file_content_def)
  next
    case (Some c)
    with assms ne show ?thesis
      by (simp add: save_summaries_def prepend_law_def ledger_header_def
          ledger_separator_def file_content_def)
  qed
qed

text \<open>
  Claim C5, as amended. The claim states the prepend law for every persist call with at
  least one succeeded record, with the prior content re-attached verbatim.
  \<^verbatim>\<open>save_summaries\<close> returns before writing when summaries are disabled or the run is a
  dry run, and it reads the prior content in text mode. So the law holds for the calls
  with summaries enabled, not in a dry run, at least one succeeded record, and a file
  that can be read and written: the file afterwards is the header with the run timestamp,
  one block per succeeded record in insertion order, and, exactly when the previous
  content was not empty, the separator line and the previous content with its line ends
  read as \<^verbatim>\<open>\n\<close>, all written with the line separator of the platform. Where that
  separator is \<^verbatim>\<open>\n\<close> and the previous content has no carriage return, the previous
  content is re-attached verbatim.
\<close>

theorem save_summaries_prepends:
  assumes "enable_summary self" and "\<not> dry_run self"
    and "\<exists>e \<in> set (summaries self). success e"
    and "summary_file = None \<or> \<not> read_raises io" and "\<not> write_raises io"
  shows "save_summaries self io summary_file =
         Some (write_text (linesep io)
                (prepend_law (current_date self) (filter success (summaries self))
                   (universal_newlines (file_content summary_file))))
    \<and> (linesep io = [CHR 0x0A] \<and> CHR 0x0D \<notin> set (file_content summary_file) \<longrightarrow>
         save_summaries self io summary_file =
         Some (prepend_law (current_date self) (filter success (summaries self))
                 (file_content summary_file)))"
  using save_summaries_writes [OF assms]
  by (simp add: write_text_id universal_newlines_id)

theorem save_summaries_prepends_witness:
  "save_summaries
     \<lparr>enable_summary = True, dry_run = False, max_retries = 2,
      summaries = [\<lparr>directory = ''r/a'', branch = ''main'',
                    summary = ''Error: Summary generation timed out.'', success = False\<rparr>,
                   \<lparr>directory = ''r/b'', branch = ''dev'',
                    summary = ''Adds a parser.'', success = True\<rparr>],
      current_date = ''2024-05-01'', summary_failures = 1\<rparr>
     posix_io (Some ''old'') =
   Some (''Date: 2024-05-01'' @ [CHR 0x0A, CHR 0x0A] @
         ''Directory: r/b'' @ [CHR 0x0A] @ ''Branch: dev'' @ [CHR 0x0A] @
         ''Adds a parser.'' @ [CHR 0x0A, CHR 0x0A] @
         ''--------------------------------------------------'' @ [CHR 0x0A, CHR 0x0A] @
         ''old'')"
  using save_summaries_prepends [of
     "\<lparr>enable_summary = True, dry_run = False, max_retries = 2,
      summaries = [\<lparr>directory = ''r/a'', branch = ''main'',
                    summary = ''Error: Summary generation timed out.'', success = False\<rparr>,
                   \<lparr>directory = ''r/b'', branch = ''dev'',
                    summary = ''Adds a parser.'', success = True\<rparr>],
      current_date = ''2024-05-01'', summary_failures = 1\<rparr>" "Some ''old''" posix_io]
  by (simp add: prepend_law_def ledger_header_def ledger_separator_def file_content_def
      entry_block_def eval_nat_numeral posix_io_def write_text_id)

text \<open>
  Claim C5 as stated fails in two ways. With summaries disabled (as after the circuit
  breaker has tripped) a persist call with a succeeded record leaves the file as it was.
  And with summaries enabled, a previous content whose lines end in \<^verbatim>\<open>\r\n\<close> is
  re-attached with \<^verbatim>\<open>\n\<close> line ends, not verbatim.
\<close>

theorem save_summaries_prepends_counterexample:
  "save_summaries
     \<lparr>enable_summary = False, dry_run = False, max_retries = 2,
      summaries = [\<lparr>directory = ''r/b'', branch = ''dev'',
                    summary = ''Adds a parser.'', success = True\<rparr>],
      current_date = ''2024-05-01'', summary_failures = 4\<rparr>
     posix_io (Some ''old'') = Some ''old''
   \<and> Some ''old'' \<noteq>
     Some (prepend_law ''2024-05-01''
            [\<lparr>directory = ''r/b'', branch = ''dev'',
              summary = ''Adds a parser.'', success = True\<rparr>] ''old'')
   \<and> save_summaries
     \<lparr>enable_summary = True, dry_run = False, max_retries = 2,
      summaries = [\<lparr>directory = ''r/b'', branch = ''dev'',
                    summary = ''Adds a parser.'', success = True\<rparr>],
      current_date = ''2024-05-01'', summary_failures = 0\<rparr>
     posix_io (Some (''old'' @ [CHR 0x0D, CHR 0x0A]))
     = Some (prepend_law ''2024-05-01''
            [\<lparr>directory = ''r/b'', branch = ''dev'',
              summary = ''Adds a parser.'', success = True\<rparr>] (''old'' @ [CHR 0x0A]))
   \<and> prepend_law ''2024-05-01''
            [\<lparr>directory = ''r/b'', branch = ''dev'',
              summary = ''Adds a parser.'', success = True\<rparr>] (''old'' @ [CHR 0x0A])
     \<noteq> prepend_law ''2024-05-01''
            [\<lparr>directory = ''r/b'', branch = ''dev'',
              summary = ''Adds a parser.'', success = True\<rparr>] (''old'' @ [CHR 0x0D, CHR 0x0A])"
  by (simp add: save_summaries_def prepend_law_def ledger_header_def ledger_separator_def
      posix_io_def write_text_id)

text \<open>
  Claim C6. Persisting leaves the file unchanged whenever summaries are disabled, the run
  is a dry run, the record list is empty, or no record has succeeded; and the file after
  persisting is the same as if the records that did not succeed had never been in the
  list, so no such record is ever written.
\<close>

theorem save_summaries_noop:
  "(\<not> enable_summary self \<or> dry_run self \<or> summaries self = []
      \<or> (\<forall>e \<in> set (summaries self). \<not> success e)
    \<longrightarrow> save_summaries self io summary_file = summary_file)
   \<and> save_summaries self io summary_file =
       save_summaries (self\<lparr>summaries := filter success (summaries self)\<rparr>) io summary_file"
proof (intro conjI impI)
  assume "\<not> enable_summary self \<or> dry_run self \<or> summaries self = []
      \<or> (\<forall>e \<in> set (summaries self). \<not> success e)"
  then have "(summaries self = [] \<or> \<not> enable_summary self \<or> dry_run self)
      \<or> filter success (summaries self) = []"
    by (auto simp: filter_empty_conv)
  then show "save_summaries self io summary_file = summary_file"
    by (auto simp: save_summaries_def)
next
  show "save_summaries self io summary_file =
       save_summaries (self\<lparr>summaries := filter success (summaries self)\<rparr>) io summary_file"
  proof (cases "filter success (summaries self) = []")
    case True
    then show ?thesis by (simp add: save_summaries_def)
  next
    case False
    then have "summaries self \<noteq> []" by auto
    with False show ?thesis by (simp add: save_summaries_def)
  qed
qed

theorem save_summaries_noop_witness:
  "save_summaries
     \<lparr>enable_summary = True, dry_run = False, max_retries = 2,
      summaries = [\<lparr>directory = ''r/a'', branch = ''main'',
                    summary = ''Error: Summary generation timed out.'', success = False\<rparr>],
      current_date = ''2024-05-01 10:00:00'', summary_failures = 1\<rparr>
     posix_io (Some ''old'') = Some ''old''"
  using save_summaries_noop [of
     "\<lparr>enable_summary = True, dry_run = False, max_retries = 2,
      summaries = [\<lparr>directory = ''r/a'', branch = ''main'',
                    summary = ''Error: Summary generation timed out.'', success = False\<rparr>],
      current_date = ''2024-05-01 10:00:00'', summary_failures = 1\<rparr>" posix_io "Some ''old''"]
  by simp

subsection \<open>The circuit breaker\<close>

lemma git_pull_disabled:
  assumes off: "\<not> enable_summary self"
  shows "fst (git_pull self env dir ps) = self \<and> snd (git_pull self env dir ps) \<noteq> Summarized
     \<and> snd (git_pull self env dir ps) \<noteq> SummariesDisabled"
proof -
  define P :: "unigit \<times> outcome \<Rightarrow> bool"
    where "P = (\<lambda>x. fst x = self \<and> snd x \<noteq> Summarized \<and> snd x \<noteq> SummariesDisabled)"
  have co: "P (check_output r self k)" if "\<And>out. P (k out)" for r k
    using that by (cases r) (simp_all add: check_output_def P_def)
  have branch: "P (if c then a else b)" if "c \<Longrightarrow> P a" and "\<not> c \<Longrightarrow> P b" for c a b
    using that by simp
  have call: "P (case x of Exited r s \<Rightarrow> f r s | Killed sg \<Rightarrow> g sg | CallRaised \<Rightarrow> h)"
    if "\<And>r s. P (f r s)" and "\<And>sg. P (g sg)" and "P h" for x f g h
    using that by (cases x) simp_all
  have "P (git_pull self env dir ps)"
    unfolding git_pull_def Let_def
    by (intro co branch call) (simp_all add: P_def off)
  then show ?thesis by (simp add: P_def)
qed

lemma sweep_disabled:
  "\<not> enable_summary self \<Longrightarrow>
     fst (git_pull_recursive world ps dir es self) = self
     \<and> (\<forall>c \<in> set (snd (git_pull_recursive world ps dir es self)).
           snd c \<noteq> Summarized \<and> snd c \<noteq> SummariesDisabled)"
proof (induction world ps dir es self rule: git_pull_recursive.induct)
  case (1 world ps dir self)
  then show ?case by simp
next
  case (2 world ps dir item node rest self)
  show ?case
  proof (cases "prefix ''.'' item \<and> item \<noteq> ''.git''")
    case True
    with 2 show ?thesis by simp
  next
    case vis: False
    show ?thesis
    proof (cases node)
      case File
      with 2 vis show ?thesis by simp
    next
      case (Dir sub)
      show ?thesis
      proof (cases "has_git_dir sub")
        case True
        obtain self1 r where gp: "git_pull self (world (dir @ [item])) (dir @ [item]) ps = (self1, r)"
          by (cases "git_pull self (world (dir @ [item])) (dir @ [item]) ps")
        with git_pull_disabled [OF "2.prems", of "world (dir @ [item])" "dir @ [item]" ps]
        have s1: "self1 = self" and r: "r \<noteq> Summarized" "r \<noteq> SummariesDisabled" by simp_all
        from "2.IH"(3) [OF vis Dir refl True gp [symmetric]] "2.prems" s1
        have "fst (git_pull_recursive world ps dir rest self) = self
          \<and> (\<forall>c \<in> set (snd (git_pull_recursive world ps dir rest self)).
                snd c \<noteq> Summarized \<and> snd c \<noteq> SummariesDisabled)"
          by simp
        with vis Dir True gp s1 r show ?thesis
          by (auto simp: Let_def split: prod.splits)
      next
        case False
        obtain self1 calls1
          where sw: "git_pull_recursive world ps (dir @ [item]) sub self = (self1, calls1)"
          by (cases "git_pull_recursive world ps (dir @ [item]) sub self")
        from "2.IH"(4) [OF vis Dir refl False] "2.prems" sw
        have s1: "self1 = self"
          and c1: "\<forall>c \<in> set calls1. snd c \<noteq> Summarized \<and> snd c \<noteq> SummariesDisabled"
          by simp_all
        from "2.IH"(5) [OF vis Dir refl False sw [symmetric]] "2.prems" s1
        have "fst (git_pull_recursive world ps dir rest self) = self
          \<and> (\<forall>c \<in> set (snd (git_pull_recursive world ps dir rest self)).
                snd c \<noteq> Summarized \<and> snd c \<noteq> SummariesDisabled)"
          by simp
        with vis Dir False sw s1 c1 show ?thesis
          by (auto simp: Let_def split: prod.splits)
      qed
    qed
  qed
qed

lemma git_pull_updated:
  assumes "rev_parse_head env = Completed out1" and "rev_parse_branch env = Completed out2"
    and "\<not> dry_run self" and "pull env ps = Exited 0 out3"
    and "rev_parse_head_after env = Completed out4" and "strip out1 \<noteq> strip out4"
    and "log_range env = Completed out5"
  shows "git_pull self env dir ps =
     (if strip out5 \<noteq> [] \<and> enable_summary self then
        (if summary_failures self > 3 then (self\<lparr>enable_summary := False\<rparr>, SummariesDisabled)
         else
           (case summarize_with_ollama self (ollama_service env) (strip out5) of
              (Some text, n, self') \<Rightarrow>
                (self'\<lparr>summaries := summaries self' @
                   [\<lparr>directory = str_path dir, branch = strip out2, summary = text,
                     success = (\<not> prefix ''Error'' text)\<rparr>]\<rparr>, Summarized)
            | (None, n, self') \<Rightarrow> (self', UnexpectedError)))
      else (self, Updated))"
  using assms by (simp add: git_pull_def check_output_def)

lemma updated_with_commitsE:
  assumes "updated_with_commits env ps"
  obtains out1 out2 out3 out4 out5 where
    "rev_parse_head env = Completed out1" "rev_parse_branch env = Completed out2"
    "pull env ps = Exited 0 out3" "rev_parse_head_after env = Completed out4"
    "log_range env = Completed out5" "strip out1 \<noteq> strip out4" "strip out5 \<noteq> []"
  using assms unfolding updated_with_commits_def
  by (auto split: proc_outcome.splits call_outcome.splits)

text \<open>
  Claim C1. When a repository qualifies for summarization (summaries enabled, not a dry
  run, updated with a non-empty commit list) while the failure counter exceeds 3,
  \<^verbatim>\<open>git_pull\<close> switches \<^verbatim>\<open>enable_summary\<close> off and does not summarize. From then on
  every sweep over any directory tree, with any behaviour of the external commands, leaves
  the object as it is, so the flag stays off and no record is added, and no call of
  \<^verbatim>\<open>git_pull\<close> summarizes; a later repository that is updated with a non-empty commit
  list is reported as updated, without a summary.
\<close>

theorem circuit_breaker:
  assumes "enable_summary self" and "\<not> dry_run self" and "summary_failures self > 3"
    and "updated_with_commits env ps"
  shows "git_pull self env dir ps = (self\<lparr>enable_summary := False\<rparr>, SummariesDisabled)
    \<and> (\<forall>world ps' dir' es.
          fst (git_pull_recursive world ps' dir' es (self\<lparr>enable_summary := False\<rparr>))
            = self\<lparr>enable_summary := False\<rparr>
          \<and> (\<forall>c \<in> set (snd (git_pull_recursive world ps' dir' es
                                 (self\<lparr>enable_summary := False\<rparr>))).
                snd c \<noteq> Summarized))
    \<and> (\<forall>env' ps' dir'. updated_with_commits env' ps' \<longrightarrow>
          git_pull (self\<lparr>enable_summary := False\<rparr>) env' dir' ps'
            = (self\<lparr>enable_summary := False\<rparr>, Updated))"
proof (intro conjI allI impI)
  from assms(4) obtain out1 out2 out3 out4 out5 where e:
    "rev_parse_head env = Completed out1" "rev_parse_branch env = Completed out2"
    "pull env ps = Exited 0 out3" "rev_parse_head_after env = Completed out4"
    "log_range env = Completed out5" "strip out1 \<noteq> strip out4" "strip out5 \<noteq> []"
    by (rule updated_with_commitsE)
  show "git_pull self env dir ps = (self\<lparr>enable_summary := False\<rparr>, SummariesDisabled)"
    using git_pull_updated [OF e(1,2) assms(2) e(3,4,6,5), of dir] assms(1,3) e(7) by simp
next
  fix world ps' dir' es
  have off: "\<not> enable_summary (self\<lparr>enable_summary := False\<rparr>)" by simp
  from sweep_disabled [OF off, of world ps' dir' es]
  show "fst (git_pull_recursive world ps' dir' es (self\<lparr>enable_summary := False\<rparr>))
            = self\<lparr>enable_summary := False\<rparr>"
    and "\<forall>c \<in> set (snd (git_pull_recursive world ps' dir' es
                                 (self\<lparr>enable_summary := False\<rparr>))).
                snd c \<noteq> Summarized"
    by simp_all
next
  fix env' ps' dir'
  assume "updated_with_commits env' ps'"
  then obtain out1 out2 out3 out4 out5 where e:
    "rev_parse_head env' = Completed out1" "rev_parse_branch env' = Completed out2"
    "pull env' ps' = Exited 0 out3" "rev_parse_head_after env' = Completed out4"
    "log_range env' = Completed out5" "strip out1 \<noteq> strip out4" "strip out5 \<noteq> []"
    by (rule updated_with_commitsE)
  have nd: "\<not> dry_run (self\<lparr>enable_summary := False\<rparr>)" using assms(2) by simp
  show "git_pull (self\<lparr>enable_summary := False\<rparr>) env' dir' ps'
            = (self\<lparr>enable_summary := False\<rparr>, Updated)"
    using git_pull_updated [OF e(1,2) nd e(3,4,6,5), of dir'] by simp
qed



theorem circuit_breaker_witness:
  "git_pull (init True False 2 ''2024-05-01''\<lparr>summary_failures := 4\<rparr>)
      (updated_repo (always (Completed [], Completed ''Adds a parser and fixes a typo.'')))
      [''r'', ''a''] False
     = (init False False 2 ''2024-05-01''\<lparr>summary_failures := 4\<rparr>, SummariesDisabled)
   \<and> git_pull_recursive
        (everywhere (updated_repo (always (Completed [], Completed ''Adds a parser and fixes a typo.''))))
        False [''r''] [(''b'', Dir [(''.git'', Dir [])])]
        (init False False 2 ''2024-05-01''\<lparr>summary_failures := 4\<rparr>)
     = (init False False 2 ''2024-05-01''\<lparr>summary_failures := 4\<rparr>, [([''r'', ''b''], Updated)])"
proof -
  have h1: "enable_summary (init True False 2 ''2024-05-01''\<lparr>summary_failures := 4\<rparr>)"
    and h2: "\<not> dry_run (init True False 2 ''2024-05-01''\<lparr>summary_failures := 4\<rparr>)"
    and h3: "summary_failures (init True False 2 ''2024-05-01''\<lparr>summary_failures := 4\<rparr>) > 3"
    by (simp_all add: init_def)
  have h4: "updated_with_commits
      (updated_repo (always (Completed [], Completed ''Adds a parser and fixes a typo.''))) False"
    by (simp add: updated_with_commits_def updated_repo_def strip_def isspace_def)
  have off: "init True False 2 ''2024-05-01''\<lparr>summary_failures := 4, enable_summary := False\<rparr>
      = init False False 2 ''2024-05-01''\<lparr>summary_failures := 4\<rparr>"
    by (simp add: init_def)
  from circuit_breaker [OF h1 h2 h3 h4, of "[''r'', ''a'']"]
  have "git_pull (init True False 2 ''2024-05-01''\<lparr>summary_failures := 4\<rparr>)
      (updated_repo (always (Completed [], Completed ''Adds a parser and fixes a typo.'')))
      [''r'', ''a''] False
     = (init False False 2 ''2024-05-01''\<lparr>summary_failures := 4\<rparr>, SummariesDisabled)"
    and later: "git_pull (init False False 2 ''2024-05-01''\<lparr>summary_failures := 4\<rparr>)
      (updated_repo (always (Completed [], Completed ''Adds a parser and fixes a typo.'')))
      [''r'', ''b''] False
     = (init False False 2 ''2024-05-01''\<lparr>summary_failures := 4\<rparr>, Updated)"
    using h4 by (simp_all add: off)
  then show ?thesis
    by (simp add: everywhere_def has_git_dir_def)
qed

subsection \<open>The summary generator\<close>

lemma loop_returns:
  "max_retries self \<in> set as \<Longrightarrow> \<exists>text. fst (attempts_loop self svc as) = Some text"
  by (induction as) (auto simp: Let_def split: proc_outcome.splits prod.splits)

lemma loop_attempts:
  "fst (snd (attempts_loop self svc as)) \<le> length as"
  by (induction as) (auto simp: Let_def split: proc_outcome.splits prod.splits)

lemma py_range_mem: "0 \<le> n \<Longrightarrow> n \<in> set (py_range (n + 1))"
  by (auto simp: py_range_def image_iff intro!: bexI[of _ "nat n"])

lemma py_range_neg: "n \<le> 0 \<Longrightarrow> py_range n = []"
  by (simp add: py_range_def)

lemma py_range_first: "0 \<le> n \<Longrightarrow> py_range (n + 1) = 0 # map int [1..<nat (n + 1)]"
  by (simp add: py_range_def upt_conv_Cons)

text \<open>
  Claim C10, as amended. With \<^verbatim>\<open>max_retries >= 0\<close> the summary generator returns a
  string for every commit text and every behaviour of the probe and of the generation
  (return, timeout, non-zero exit, missing executable, any other exception), after at
  most \<^verbatim>\<open>max_retries + 1\<close> attempts. With \<^verbatim>\<open>max_retries < 0\<close> and a commit text that is
  not blank, no attempt is made and the function returns no value. A blank commit text
  gives the fixed text before the loop is reached, whatever \<^verbatim>\<open>max_retries\<close> is.
\<close>

theorem summarize_total:
  "(0 \<le> max_retries self \<longrightarrow>
      (\<exists>text. fst (summarize_with_ollama self svc commit_messages) = Some text)
      \<and> fst (snd (summarize_with_ollama self svc commit_messages)) \<le> nat (max_retries self + 1))
   \<and> (max_retries self < 0 \<and> strip commit_messages \<noteq> [] \<longrightarrow>
      summarize_with_ollama self svc commit_messages = (None, 0, self))
   \<and> (strip commit_messages = [] \<longrightarrow>
      summarize_with_ollama self svc commit_messages =
        (Some ''No commit messages to summarize.'', 0, self))"
proof (intro conjI impI)
  assume "0 \<le> max_retries self"
  then show "\<exists>text. fst (summarize_with_ollama self svc commit_messages) = Some text"
    using loop_returns [OF py_range_mem, of self svc]
    by (simp add: summarize_with_ollama_def)
next
  have "fst (snd (attempts_loop self svc (py_range (max_retries self + 1))))
          \<le> length (py_range (max_retries self + 1))"
    by (rule loop_attempts)
  then show "fst (snd (summarize_with_ollama self svc commit_messages)) \<le> nat (max_retries self + 1)"
    by (simp add: summarize_with_ollama_def py_range_def)
next
  assume "max_retries self < 0 \<and> strip commit_messages \<noteq> []"
  then show "summarize_with_ollama self svc commit_messages = (None, 0, self)"
    by (simp add: summarize_with_ollama_def py_range_neg)
next
  assume "strip commit_messages = []"
  then show "summarize_with_ollama self svc commit_messages =
        (Some ''No commit messages to summarize.'', 0, self)"
    by (simp add: summarize_with_ollama_def)
qed

theorem summarize_total_witness:
  "summarize_with_ollama (init True False 2 ''2024-05-01'')
      (always (Completed [], TimeoutExpired)) ''ccc3333 Add parser''
     = (Some ''Error: Summary generation timed out.'', 3,
        init True False 2 ''2024-05-01''\<lparr>summary_failures := 1\<rparr>)
   \<and> summarize_with_ollama (init True False (- 1) ''2024-05-01'')
      (always (Completed [], TimeoutExpired)) ''ccc3333 Add parser''
     = (None, 0, init True False (- 1) ''2024-05-01'')
   \<and> summarize_with_ollama (init True False 2 ''2024-05-01'')
      (always (Completed [], TimeoutExpired)) '' ''
     = (Some ''No commit messages to summarize.'', 0, init True False 2 ''2024-05-01'')"
  using summarize_total [of "init True False 2 ''2024-05-01''"
      "always (Completed [], TimeoutExpired)" "''ccc3333 Add parser''"]
    summarize_total [of "init True False (- 1) ''2024-05-01''"
      "always (Completed [], TimeoutExpired)" "''ccc3333 Add parser''"]
    summarize_total [of "init True False 2 ''2024-05-01''"
      "always (Completed [], TimeoutExpired)" "'' ''"]
  by (simp add: summarize_with_ollama_def init_def always_def try_ollama_def py_range_def
      strip_def isspace_def upt_rec)

text \<open>
  Claim C10 as stated fails in its last part: with \<^verbatim>\<open>max_retries < 0\<close> and an empty
  commit text the function does produce a result value.
\<close>

theorem summarize_negative_retries_counterexample:
  "max_retries (init True False (- 1) ''2024-05-01'') < 0
   \<and> summarize_with_ollama (init True False (- 1) ''2024-05-01'')
        (always (Completed [], TimeoutExpired)) []
       = (Some ''No commit messages to summarize.'', 0, init True False (- 1) ''2024-05-01'')"
  by (simp add: summarize_with_ollama_def init_def strip_def)

text \<open>
  Claim C8, as amended. When the executable is missing at an attempt (the probe, or the
  generation after a probe that returned, raises \<^verbatim>\<open>FileNotFoundError\<close>), the call
  ends at that attempt with the not-installed text and one more counted failure, whatever
  attempts remain; in particular at the first attempt. A probe that fails in another way
  (timeout, non-zero exit, another exception) is retried while retries remain.
\<close>

theorem missing_executable_terminal:
  "(fst (svc (nat attempt)) = FileNotFoundError
      \<or> (\<exists>out. fst (svc (nat attempt)) = Completed out)
          \<and> snd (svc (nat attempt)) = FileNotFoundError
    \<longrightarrow> attempts_loop self svc (attempt # rest) =
          (Some ''Error: Ollama not installed.'', 1,
           self\<lparr>summary_failures := summary_failures self + 1\<rparr>))
   \<and> (0 \<le> max_retries self \<and> strip commit_messages \<noteq> []
        \<and> fst (svc 0) = FileNotFoundError
    \<longrightarrow> summarize_with_ollama self svc commit_messages =
          (Some ''Error: Ollama not installed.'', 1,
           self\<lparr>summary_failures := summary_failures self + 1\<rparr>))
   \<and> (attempt < max_retries self
        \<and> (fst (svc (nat attempt)) = TimeoutExpired
           \<or> (\<exists>e. fst (svc (nat attempt)) = CalledProcessError e)
           \<or> fst (svc (nat attempt)) = OtherException)
    \<longrightarrow> attempts_loop self svc (attempt # rest) =
          (case attempts_loop self svc rest of (r, n, self') \<Rightarrow> (r, Suc n, self')))"
proof (intro conjI impI)
  assume "fst (svc (nat attempt)) = FileNotFoundError
      \<or> (\<exists>out. fst (svc (nat attempt)) = Completed out)
          \<and> snd (svc (nat attempt)) = FileNotFoundError"
  then have "try_ollama (svc (nat attempt)) = FileNotFoundError"
    by (auto simp: try_ollama_def)
  then show "attempts_loop self svc (attempt # rest) =
          (Some ''Error: Ollama not installed.'', 1,
           self\<lparr>summary_failures := summary_failures self + 1\<rparr>)"
    by simp
next
  assume a: "0 \<le> max_retries self \<and> strip commit_messages \<noteq> []
        \<and> fst (svc 0) = FileNotFoundError"
  then have "try_ollama (svc (nat 0)) = FileNotFoundError"
    by (simp add: try_ollama_def)
  with a show "summarize_with_ollama self svc commit_messages =
          (Some ''Error: Ollama not installed.'', 1,
           self\<lparr>summary_failures := summary_failures self + 1\<rparr>)"
    by (simp add: summarize_with_ollama_def py_range_first)
next
  assume a: "attempt < max_retries self
        \<and> (fst (svc (nat attempt)) = TimeoutExpired
           \<or> (\<exists>e. fst (svc (nat attempt)) = CalledProcessError e)
           \<or> fst (svc (nat attempt)) = OtherException)"
  then have "try_ollama (svc (nat attempt)) = TimeoutExpired
     \<or> (\<exists>e. try_ollama (svc (nat attempt)) = CalledProcessError e)
     \<or> try_ollama (svc (nat attempt)) = OtherException"
    by (auto simp: try_ollama_def)
  with a show "attempts_loop self svc (attempt # rest) =
          (case attempts_loop self svc rest of (r, n, self') \<Rightarrow> (r, Suc n, self'))"
    by (auto simp: Let_def)
qed

theorem missing_executable_terminal_witness:
  "summarize_with_ollama (init True False 2 ''2024-05-01'')
      (always (FileNotFoundError, FileNotFoundError)) ''ccc3333 Add parser''
     = (Some ''Error: Ollama not installed.'', 1,
        init True False 2 ''2024-05-01''\<lparr>summary_failures := 1\<rparr>)
   \<and> attempts_loop (init True False 2 ''2024-05-01'')
        (first_then (CalledProcessError ''exit status 1'', Completed [])
                    (FileNotFoundError, FileNotFoundError)) [0, 1, 2]
     = (Some ''Error: Ollama not installed.'', 2,
        init True False 2 ''2024-05-01''\<lparr>summary_failures := 1\<rparr>)"
  using missing_executable_terminal [of "always (FileNotFoundError, FileNotFoundError)" 0
      "init True False 2 ''2024-05-01''" "[1, 2]" "''ccc3333 Add parser''"]
    missing_executable_terminal [of "first_then (CalledProcessError ''exit status 1'', Completed [])
                    (FileNotFoundError, FileNotFoundError)" 1
      "init True False 2 ''2024-05-01''" "[2]" "''ccc3333 Add parser''"]
    missing_executable_terminal [of "first_then (CalledProcessError ''exit status 1'', Completed [])
                    (FileNotFoundError, FileNotFoundError)" 0
      "init True False 2 ''2024-05-01''" "[1, 2]" "''ccc3333 Add parser''"]
  by (simp add: init_def always_def first_then_def strip_def isspace_def)

text \<open>
  Claim C8 as stated fails: a probe that fails with a non-zero exit at the first attempt
  does not end the call; the second attempt runs and its summary is returned.
\<close>

theorem unreachable_service_counterexample:
  "summarize_with_ollama (init True False 2 ''2024-05-01'')
      (first_then (CalledProcessError ''exit status 1'', Completed [])
                  (Completed [], Completed ''Adds a parser and fixes a typo.''))
      ''ccc3333 Add parser''
     = (Some ''Adds a parser and fixes a typo.'', 2, init True False 2 ''2024-05-01'')"
  by (simp add: summarize_with_ollama_def init_def first_then_def try_ollama_def py_range_def
      strip_def isspace_def upt_rec)

text \<open>
  The object changes in the loop only by one more counted failure, and only together with
  one of the four texts that start with \<^verbatim>\<open>Error\<close>.
\<close>

lemma loop_counter:
  "attempts_loop self svc as = (r, n, self') \<Longrightarrow>
     self' = self
     \<or> self' = self\<lparr>summary_failures := summary_failures self + 1\<rparr>
       \<and> r \<in> {Some ''Error: Summary generation timed out.'',
               Some ''Error generating summary: Ollama command failed.'',
               Some ''Error: Ollama not installed.'',
               Some ''Error generating summary due to an unexpected issue.''}"
proof (induction as arbitrary: r n self')
  case Nil
  then show ?case by simp
next
  case (Cons a as)
  obtain r0 n0 s0 where rest: "attempts_loop self svc as = (r0, n0, s0)"
    by (cases "attempts_loop self svc as")
  note ih = Cons.IH [OF rest]
  show ?case
  proof (cases "try_ollama (svc (nat a))")
    case (Completed out)
    with Cons.prems rest ih show ?thesis
      by (auto simp: Let_def split: if_splits)
  next
    case TimeoutExpired
    with Cons.prems rest ih show ?thesis
      by (auto simp: Let_def split: if_splits)
  next
    case (CalledProcessError e)
    with Cons.prems rest ih show ?thesis
      by (auto simp: Let_def split: if_splits)
  next
    case FileNotFoundError
    with Cons.prems rest ih show ?thesis
      by (auto simp: Let_def split: if_splits)
  next
    case OtherException
    with Cons.prems rest ih show ?thesis
      by (auto simp: Let_def split: if_splits)
  qed
qed

text \<open>
  Claim C2 at the input where the code departs from it: with no retries and an output of
  two characters, the generator returns the insufficient-results text after one attempt
  and the failure counter is still 0.
\<close>

theorem insufficient_result_not_counted:
  "summarize_with_ollama (init True False 0 ''2024-05-01'')
      (always (Completed [], Completed ''ok'')) ''ccc3333 Add parser''
     = (Some ''Summary generation produced insufficient results.'', 1,
        init True False 0 ''2024-05-01'')
   \<and> summary_failures (init True False 0 ''2024-05-01'') = 0"
  by (simp add: summarize_with_ollama_def init_def always_def try_ollama_def py_range_def
      strip_def isspace_def)

text \<open>
  Claim C3 at the input where the code departs from it: for the same service, the record
  that \<^verbatim>\<open>git_pull\<close> appends for the updated repository carries the
  insufficient-results text and \<^verbatim>\<open>success = True\<close>.
\<close>

theorem insufficient_result_recorded_as_success:
  "git_pull (init True False 0 ''2024-05-01'')
      (updated_repo (always (Completed [], Completed ''ok''))) [''r'', ''a''] False
     = (init True False 0 ''2024-05-01''
          \<lparr>summaries := [\<lparr>directory = ''r/a'', branch = ''main'',
              summary = ''Summary generation produced insufficient results.'',
              success = True\<rparr>]\<rparr>, Summarized)"
  by (simp add: git_pull_def check_output_def updated_repo_def summarize_with_ollama_def init_def
      always_def try_ollama_def py_range_def strip_def isspace_def)

subsection \<open>Pull failures\<close>

lemma contains_sublist: "contains s sub \<longleftrightarrow> sublist sub s"
  by (induction s) (auto simp: sublist_Cons_right)

text \<open>
  A pull that exits with a non-zero status is classified on the text of the exception,
  which is made of the command and the status; the object is unchanged, and a sweep that
  meets such a repository records the report and goes on with the rest of the listing.
\<close>

lemma pull_failure_reported:
  assumes "rev_parse_head env = Completed out1" and "rev_parse_branch env = Completed out2"
    and "\<not> dry_run self" and "pull env ps = Exited returncode stderr" and "returncode \<noteq> 0"
  shows "git_pull self env dir ps =
     (self, if is_forbidden (exit_status_str (pull_cmd ps) returncode)
            then Forbidden else PullError)"
  using assms by (simp add: git_pull_def check_output_def)

lemma pull_failure_skipped:
  assumes "rev_parse_head env = Completed out1" and "rev_parse_branch env = Completed out2"
    and "\<not> dry_run self" and "pull env ps = Exited returncode stderr" and "returncode \<noteq> 0"
    and "\<not> (prefix ''.'' item \<and> item \<noteq> ''.git'')" and "has_git_dir sub"
    and "world (dir @ [item]) = env"
  shows "git_pull_recursive world ps dir ((item, Dir sub) # rest) self =
        (fst (git_pull_recursive world ps dir rest self),
         (dir @ [item], snd (git_pull self env (dir @ [item]) ps))
           # snd (git_pull_recursive world ps dir rest self))"
proof -
  have "git_pull self env (dir @ [item]) ps =
      (self, if is_forbidden (exit_status_str (pull_cmd ps) returncode)
             then Forbidden else PullError)"
    by (rule pull_failure_reported [OF assms(1-5)])
  with assms(6-8) show ?thesis
    by (auto simp: Let_def split: prod.splits)
qed

text \<open>
  Claim C7 at the input where the code departs from it. \<^verbatim>\<open>git pull\<close> is refused by
  the server: it writes an error text with \<^verbatim>\<open>403\<close> to its standard error and exits
  with status 128. That text matches the access-denial patterns, but the program never
  sees it: what it classifies is the text of the exception, which names the command and
  the exit status only, so the failure is reported as a plain pull error and not as
  forbidden.
\<close>

theorem forbidden_pull_not_recognised:
  "is_forbidden
     ''fatal: unable to access 'https://example.org/a.git/': The requested URL returned error: 403''
   \<and> exit_status_str (pull_cmd False) 128
       = ''Command '['git', 'pull']' returned non-zero exit status 128.''
   \<and> git_pull (init True False 2 ''2024-05-01'')
        (pull_refused 128
          ''fatal: unable to access 'https://example.org/a.git/': The requested URL returned error: 403'')
        [''r'', ''a''] False
     = (init True False 2 ''2024-05-01'', PullError)"
  by (simp add: git_pull_def check_output_def pull_refused_def updated_repo_def init_def
      is_forbidden_def lower_def lower_char_def exit_status_str_def pull_cmd_def str_list_def
      str_nat.simps)

subsection \<open>Discovery and the sweep\<close>

























subsection \<open>The order of the new commits\<close>

lemma no_reverse_flag: "''--reverse'' \<notin> set (git_log_argv old_head new_head)"
proof -
  have "CHR ''.'' \<in> set (old_head @ ''..'' @ new_head)" by simp
  moreover have "CHR ''.'' \<notin> set ''--reverse''" by simp
  ultimately have "old_head @ ''..'' @ new_head \<noteq> ''--reverse''" by metis
  then show ?thesis by (simp add: git_log_argv_def)
qed

lemma lines_join: "ls \<noteq> [] \<Longrightarrow> concat (map (\<lambda>line. line @ [CHR 0x0A]) ls) = join_lines ls @ [CHR 0x0A]"
  by (induction ls rule: join_lines.induct) simp_all

lemma join_lines_ends:
  "ls \<noteq> [] \<Longrightarrow> \<forall>l \<in> set ls. l \<noteq> [] \<Longrightarrow>
     join_lines ls \<noteq> [] \<and> hd (join_lines ls) = hd (hd ls) \<and> last (join_lines ls) = last (last ls)"
  by (induction ls rule: join_lines.induct) auto

lemma strip_line:
  assumes "x \<noteq> []" and "\<not> isspace (hd x)" and "\<not> isspace (last x)"
  shows "strip (x @ [CHR 0x0A]) = x"
proof -
  from assms(1,2) have "dropWhile isspace (x @ [CHR 0x0A]) = x @ [CHR 0x0A]"
    by (cases x) simp_all
  moreover have "isspace (CHR 0x0A)" by (simp add: isspace_def)
  moreover from assms(1,3) have "dropWhile isspace (rev x) = rev x"
    by (cases x rule: rev_cases) simp_all
  ultimately show ?thesis by (simp add: strip_def)
qed

text \<open>
  Claim C9, as amended. For every pair of revisions, the commit list that \<^verbatim>\<open>git_pull\<close>
  obtains is the one-line summaries of the range in the order the log command emits
  them, which is newest first, since the command is run without a reversal flag and its
  output is only stripped: for summaries that are not empty and neither begin nor end
  with whitespace, the result is the summaries joined by newlines, the newest first.
\<close>

theorem commits_between_newest_first:
  assumes "range_summaries \<noteq> []"
    and "\<forall>l \<in> set range_summaries. l \<noteq> [] \<and> \<not> isspace (hd l) \<and> \<not> isspace (last l)"
  shows "commits_between range_summaries old_head new_head = join_lines (rev range_summaries)"
proof -
  let ?ls = "rev range_summaries"
  from assms have ne: "?ls \<noteq> []" and all: "\<forall>l \<in> set ?ls. l \<noteq> []" by simp_all
  from join_lines_ends [OF ne all]
  have j: "join_lines ?ls \<noteq> []" "hd (join_lines ?ls) = hd (hd ?ls)"
    "last (join_lines ?ls) = last (last ?ls)" by simp_all
  from ne have "hd ?ls \<in> set range_summaries" "last ?ls \<in> set range_summaries"
    by (metis hd_in_set set_rev, metis last_in_set set_rev)
  with assms(2) j have "\<not> isspace (hd (join_lines ?ls))" "\<not> isspace (last (join_lines ?ls))"
    by simp_all
  from strip_line [OF j(1) this] show ?thesis
    by (simp add: commits_between_def git_log_stdout_def no_reverse_flag lines_join [OF ne])
qed

theorem commits_between_newest_first_witness:
  "commits_between [''bbb2222 Fix typo'', ''ccc3333 Add parser''] ''aaa1111'' ''ccc3333''
     = ''ccc3333 Add parser'' @ [CHR 0x0A] @ ''bbb2222 Fix typo''"
  using commits_between_newest_first [of "[''bbb2222 Fix typo'', ''ccc3333 Add parser'']"
      "''aaa1111''" "''ccc3333''"]
  by (simp add: isspace_def)

text \<open>
  Claim C9 as stated fails: after a pull from \<^verbatim>\<open>A\<close> to \<^verbatim>\<open>C\<close> through \<^verbatim>\<open>B\<close>, the
  list has the summary of \<^verbatim>\<open>C\<close> before that of \<^verbatim>\<open>B\<close>, not \<^verbatim>\<open>B\<close> before
  \<^verbatim>\<open>C\<close>.
\<close>

theorem commits_between_oldest_first_counterexample:
  "commits_between [''bbb2222 Fix typo'', ''ccc3333 Add parser''] ''aaa1111'' ''ccc3333''
     = ''ccc3333 Add parser'' @ [CHR 0x0A] @ ''bbb2222 Fix typo''
   \<and> commits_between [''bbb2222 Fix typo'', ''ccc3333 Add parser''] ''aaa1111'' ''ccc3333''
     \<noteq> ''bbb2222 Fix typo'' @ [CHR 0x0A] @ ''ccc3333 Add parser''"
  by (simp add: commits_between_def git_log_stdout_def git_log_argv_def strip_def isspace_def)

end
